theory Spec2Isabelle
  imports Main "HOL-Library.AList"
begin

section \<open>Data model of \<^verbatim>\<open>skll/data/featureset.py\<close>\<close>

text \<open>
  Every \<^verbatim>\<open>raise ValueError(...)\<close> of the source is one constructor, named after the
  error kind it stands for: \<open>ShapeMismatch\<close> (line 57), \<open>IncompatibleVectorizer\<close>
  (line 87), \<open>DuplicateFeatureName\<close> (line 96), \<open>MisalignedIds\<close> (line 116) and
  \<open>ConflictingLabels\<close> (line 126). The other constructors are the exceptions that Python,
  numpy and scipy raise by themselves: \<open>ValueError\<close> for operands whose shapes do not fit
  (broadcasting, \<^verbatim>\<open>hstack\<close>), \<open>IndexError\<close>, \<open>TypeError\<close> and \<open>AttributeError\<close>.
\<close>

datatype error =
    ShapeMismatch | IncompatibleVectorizer | DuplicateFeatureName | MisalignedIds
  | ConflictingLabels | ValueError | IndexError | TypeError | AttributeError

text \<open>
  An entry of the \<^verbatim>\<open>ids\<close> or \<^verbatim>\<open>classes\<close> array: Python's \<^verbatim>\<open>None\<close>, a number or a
  string. \<open>NaN\<close> is what \<^verbatim>\<open>np.empty(n).fill(None)\<close> leaves in a float array; it is not
  \<^verbatim>\<open>None\<close> and it equals nothing, itself included.
\<close>

datatype val = PyNone | NaN | IntV int | StrV string

definition val_eq :: "val \<Rightarrow> val \<Rightarrow> bool" where
  "val_eq x y = (x \<noteq> NaN \<and> y \<noteq> NaN \<and> x = y)"

text \<open>
  The feature matrix, as the class docstring types it (a two-dimensional array): its shape
  is \<open>(length (rows m), ncols m)\<close>. The entries are only moved around by this module, so they
  are integers here. The matrix is well formed when every row has \<open>ncols m\<close> entries.
\<close>

record matrix =
  ncols :: nat
  rows :: "int list list"

definition wf_matrix :: "matrix \<Rightarrow> bool" where
  "wf_matrix m = list_all (\<lambda>r. length r = ncols m) (rows m)"

definition shape :: "matrix \<Rightarrow> nat list" where
  "shape m = [length (rows m), ncols m]"

text \<open>The shape of a one-dimensional array is a tuple with one entry.\<close>

definition shape1 :: "'a list \<Rightarrow> nat list" where
  "shape1 xs = [length xs]"

text \<open>\<^verbatim>\<open>t[i]\<close> on a shape tuple: out of range is an IndexError.\<close>

definition tuple_index :: "nat list \<Rightarrow> nat \<Rightarrow> error + nat" where
  "tuple_index t i = (if i < length t then Inr (t ! i) else Inl IndexError)"

text \<open>
  The two vectorizer variants. A \<^verbatim>\<open>DictVectorizer\<close> holds the dictionary \<^verbatim>\<open>vocabulary_\<close>
  (an association list with distinct keys, in insertion order) and the list
  \<^verbatim>\<open>feature_names_\<close>. A \<^verbatim>\<open>FeatureHasher\<close> holds its width and its hash function.
\<close>

datatype vectorizer =
    DictVectorizer (vocabulary: "(string \<times> int) list") (feature_names: "string list")
  | FeatureHasher (n_features: nat) (hash_fn: "string \<Rightarrow> nat")

datatype vec_type = NoneType | DictVectorizerType | FeatureHasherType

fun type_of :: "vectorizer option \<Rightarrow> vec_type" where
  "type_of None = NoneType"
| "type_of (Some (DictVectorizer _ _)) = DictVectorizerType"
| "type_of (Some (FeatureHasher _ _)) = FeatureHasherType"

text \<open>\<^verbatim>\<open>v.get_feature_names()\<close>: the list \<^verbatim>\<open>feature_names_\<close> of a DictVectorizer.\<close>

fun get_feature_names :: "vectorizer option \<Rightarrow> error + string list" where
  "get_feature_names (Some (DictVectorizer _ ns)) = Inr ns"
| "get_feature_names _ = Inl AttributeError"

text \<open>
  Modelled from the spec: the lookup of a feature name in a vectorizer, \<^verbatim>\<open>name in v\<close> and
  \<^verbatim>\<open>v[name]\<close>, which the source uses and the vectorizer classes (not part of this
  repository) have to supply. Section 6 of the specification asks every vectorizer for the
  forward lookup from a feature name to a column index: the vocabulary of a Dictionary
  vectorizer, the hash modulo the width for a Hashing one.
\<close>

fun vec_lookup :: "vectorizer \<Rightarrow> string \<Rightarrow> int option" where
  "vec_lookup (DictVectorizer voc _) name = map_of voc name"
| "vec_lookup (FeatureHasher n h) name = (if n = 0 then None else Some (int (h name mod n)))"

text \<open>
  An object met when the \<^verbatim>\<open>features\<close> argument of \<^verbatim>\<open>filter\<close> is iterated: a feature
  name when the caller passes a list of names, a matrix row when it passes a matrix, as
  \<^verbatim>\<open>__sub__\<close> does.
\<close>

datatype pyobj = PyStr string | PyRow "int list"

record featureset =
  ids :: "val list option"
  classes :: "val list option"
  features :: "matrix option"
  feat_vectorizer :: "vectorizer option"

section \<open>The numpy and scipy operations the module uses\<close>

definition np_ones :: "nat \<Rightarrow> bool list" where
  "np_ones n = replicate n True"

text \<open>\<^verbatim>\<open>a = np.empty(n); a.fill(None)\<close>: a float array of \<open>n\<close> NaNs.\<close>

definition np_empty_fill_None :: "nat \<Rightarrow> val list" where
  "np_empty_fill_None n = replicate n NaN"

text \<open>
  Broadcasting of two one-dimensional operands: equal lengths go elementwise, an operand of
  length one is repeated, anything else cannot be broadcast.
\<close>

definition broadcast2 :: "('a \<Rightarrow> 'b \<Rightarrow> 'c) \<Rightarrow> 'a list \<Rightarrow> 'b list \<Rightarrow> 'c list option" where
  "broadcast2 f xs ys =
     (if length xs = length ys then Some (map2 f xs ys)
      else if length xs = 1 then Some (map (f (hd xs)) ys)
      else if length ys = 1 then Some (map (\<lambda>x. f x (hd ys)) xs)
      else None)"

definition np_logical_and :: "bool list \<Rightarrow> bool list \<Rightarrow> error + bool list" where
  "np_logical_and xs ys =
     (case broadcast2 (\<and>) xs ys of None \<Rightarrow> Inl ValueError | Some zs \<Rightarrow> Inr zs)"

definition np_logical_not :: "bool list \<Rightarrow> bool list" where
  "np_logical_not xs = map Not xs"

text \<open>
  \<^verbatim>\<open>np.asarray(a).ravel()\<close> for the \<^verbatim>\<open>ids\<close> or \<^verbatim>\<open>classes\<close> attribute: \<^verbatim>\<open>None\<close> becomes the
  array with the single entry \<^verbatim>\<open>None\<close>.
\<close>

definition as_array :: "val list option \<Rightarrow> val list" where
  "as_array a = (case a of None \<Rightarrow> [PyNone] | Some xs \<Rightarrow> xs)"

text \<open>\<^verbatim>\<open>x in l\<close> for a Python list, and \<^verbatim>\<open>np.in1d(a, l)\<close>, which tests every entry of a.\<close>

definition py_in :: "val \<Rightarrow> val list \<Rightarrow> bool" where
  "py_in x l = list_ex (val_eq x) l"

definition np_in1d :: "val list option \<Rightarrow> val list \<Rightarrow> bool list" where
  "np_in1d a l = map (\<lambda>x. py_in x l) (as_array a)"

text \<open>
  \<^verbatim>\<open>np.all(a == b)\<close> for two attributes. Two \<^verbatim>\<open>None\<close>s are equal; an array is compared
  with \<^verbatim>\<open>None\<close> entry by entry; two arrays are compared with broadcasting, and arrays that
  cannot be broadcast compare as \<^verbatim>\<open>False\<close> (numpy releases that raise a ValueError there
  instead make no difference to the caller, who raises a ValueError on \<^verbatim>\<open>False\<close>).
\<close>

definition np_all_eq :: "val list option \<Rightarrow> val list option \<Rightarrow> bool" where
  "np_all_eq a b =
     (if a = None \<and> b = None then True
      else (case broadcast2 val_eq (as_array a) (as_array b) of
              None \<Rightarrow> False
            | Some zs \<Rightarrow> list_all id zs))"

text \<open>
  \<^verbatim>\<open>a[mask]\<close> with a boolean mask: the mask has to be as long as the array, and the entries
  under \<^verbatim>\<open>True\<close> are kept in their order. Indexing \<^verbatim>\<open>None\<close> is a TypeError.
\<close>

definition select :: "bool list \<Rightarrow> 'a list \<Rightarrow> 'a list" where
  "select msk xs = map snd (filter fst (zip msk xs))"

definition bool_index :: "'a list option \<Rightarrow> bool list \<Rightarrow> error + 'a list" where
  "bool_index a msk =
     (case a of
        None \<Rightarrow> Inl TypeError
      | Some xs \<Rightarrow> if length msk = length xs then Inr (select msk xs) else Inl IndexError)"

text \<open>\<^verbatim>\<open>m[mask, :]\<close>: the same on the rows of a matrix.\<close>

definition bool_index_rows :: "matrix option \<Rightarrow> bool list \<Rightarrow> error + matrix" where
  "bool_index_rows a msk =
     (case a of
        None \<Rightarrow> Inl TypeError
      | Some m \<Rightarrow> (case bool_index (Some (rows m)) msk of
                    Inl e \<Rightarrow> Inl e
                  | Inr rs \<Rightarrow> Inr (m\<lparr>rows := rs\<rparr>)))"

text \<open>
  Indexing with an integer array. A negative index counts from the end, an index out of
  range is an IndexError. \<^verbatim>\<open>np.array([])\<close> is a float array, which numpy refuses as an
  index (IndexError) and as an operand of \<^verbatim>\<open>~\<close> (TypeError); on an integer array
  \<^verbatim>\<open>~\<close> is the bitwise complement \<open>- c - 1\<close>.
\<close>

definition norm_index :: "nat \<Rightarrow> int \<Rightarrow> error + nat" where
  "norm_index n i =
     (let j = (if i < 0 then int n + i else i)
      in if 0 \<le> j \<and> j < int n then Inr (nat j) else Inl IndexError)"

fun norm_indices :: "nat \<Rightarrow> int list \<Rightarrow> error + nat list" where
  "norm_indices n [] = Inr []"
| "norm_indices n (i # is) =
     (case norm_index n i of
        Inl e \<Rightarrow> Inl e
      | Inr j \<Rightarrow> (case norm_indices n is of Inl e \<Rightarrow> Inl e | Inr js \<Rightarrow> Inr (j # js)))"

definition np_invert :: "int list \<Rightarrow> error + int list" where
  "np_invert cs = (if cs = [] then Inl TypeError else Inr (map (\<lambda>c. - c - 1) cs))"

text \<open>\<^verbatim>\<open>row[cols]\<close> on a one-dimensional row.\<close>

definition int_index :: "int list \<Rightarrow> int list \<Rightarrow> error + int list" where
  "int_index r cs =
     (if cs = [] then Inl IndexError
      else (case norm_indices (length r) cs of
              Inl e \<Rightarrow> Inl e
            | Inr js \<Rightarrow> Inr (map (\<lambda>j. r ! j) js)))"

text \<open>\<^verbatim>\<open>m[:, cols]\<close> on a matrix.\<close>

definition int_index_cols :: "matrix \<Rightarrow> int list \<Rightarrow> error + matrix" where
  "int_index_cols m cs =
     (if cs = [] then Inl IndexError
      else (case norm_indices (ncols m) cs of
              Inl e \<Rightarrow> Inl e
            | Inr js \<Rightarrow> Inr \<lparr>ncols = length js, rows = map (\<lambda>r. map (\<lambda>j. r ! j) js) (rows m)\<rparr>))"

text \<open>
  \<^verbatim>\<open>sp.hstack([a, b], 'csr')\<close>: the columns of \<open>a\<close> followed by those of \<open>b\<close>. A block that
  is \<^verbatim>\<open>None\<close> or has another number of rows is a ValueError.
\<close>

definition hstack :: "matrix \<Rightarrow> matrix option \<Rightarrow> error + matrix" where
  "hstack a b =
     (case b of
        None \<Rightarrow> Inl ValueError
      | Some m \<Rightarrow>
          if length (rows a) = length (rows m)
          then Inr \<lparr>ncols = ncols a + ncols m, rows = map2 (@) (rows a) (rows m)\<rparr>
          else Inl ValueError)"

section \<open>The class \<^verbatim>\<open>FeatureSet\<close>\<close>

subsection \<open>\<^verbatim>\<open>__len__\<close> (line 75)\<close>

definition FeatureSet_len :: "featureset \<Rightarrow> error + nat" where
  "FeatureSet_len self =
     (case features self of
        None \<Rightarrow> Inl AttributeError
      | Some m \<Rightarrow> tuple_index (shape m) 1)"

subsection \<open>\<^verbatim>\<open>filter\<close> (line 130)\<close>

text \<open>Line 149: the mask the method starts from.\<close>

definition initial_mask :: "featureset \<Rightarrow> error + bool list" where
  "initial_mask self =
     (case FeatureSet_len self of Inl e \<Rightarrow> Inl e | Inr n \<Rightarrow> Inr (np_ones n))"

text \<open>Lines 149 to 156: the mask of the examples to keep.\<close>

definition row_mask ::
  "featureset \<Rightarrow> val list option \<Rightarrow> val list option \<Rightarrow> bool \<Rightarrow> error + bool list" where
  "row_mask self ids_arg classes_arg inverse_arg =
     (case initial_mask self of
        Inl e \<Rightarrow> Inl e
      | Inr mask0 \<Rightarrow>
          (case (case ids_arg of
                   None \<Rightarrow> Inr mask0
                 | Some l \<Rightarrow> np_logical_and mask0 (np_logical_not (np_in1d (ids self) l))) of
             Inl e \<Rightarrow> Inl e
           | Inr mask1 \<Rightarrow>
               (case (case classes_arg of
                        None \<Rightarrow> Inr mask1
                      | Some l \<Rightarrow>
                          np_logical_and mask1 (np_logical_not (np_in1d (classes self) l))) of
                  Inl e \<Rightarrow> Inl e
                | Inr mask2 \<Rightarrow> Inr (if inverse_arg then np_logical_not mask2 else mask2))))"

text \<open>
  Lines 165 to 167 (and 193 to 195): the sorted column indices of the names that the
  vectorizer knows. The vectorizer is consulted once for every object, so a missing
  vectorizer or an object that is no name fails at the first object, with a TypeError.
\<close>

fun resolve :: "vectorizer option \<Rightarrow> pyobj list \<Rightarrow> error + int list" where
  "resolve v [] = Inr []"
| "resolve None (x # xs) = Inl TypeError"
| "resolve (Some v) (PyRow r # xs) = Inl TypeError"
| "resolve (Some v) (PyStr name # xs) =
     (case resolve (Some v) xs of
        Inl e \<Rightarrow> Inl e
      | Inr cs \<Rightarrow> (case vec_lookup v name of None \<Rightarrow> Inr cs | Some c \<Rightarrow> Inr (c # cs)))"

definition resolve_columns :: "vectorizer option \<Rightarrow> pyobj list \<Rightarrow> error + int list" where
  "resolve_columns v xs = (case resolve v xs of Inl e \<Rightarrow> Inl e | Inr cs \<Rightarrow> Inr (sort cs))"

text \<open>Lines 164 to 171: the column filter.\<close>

definition filter_columns ::
  "vectorizer option \<Rightarrow> matrix \<Rightarrow> pyobj list option \<Rightarrow> bool \<Rightarrow> error + matrix" where
  "filter_columns v m features_arg inverse_arg =
     (case features_arg of
        None \<Rightarrow> Inr m
      | Some xs \<Rightarrow>
          (case resolve_columns v xs of
             Inl e \<Rightarrow> Inl e
           | Inr columns \<Rightarrow>
               if inverse_arg
               then (case np_invert columns of
                       Inl e \<Rightarrow> Inl e
                     | Inr cs \<Rightarrow> int_index_cols m cs)
               else int_index_cols m columns))"

text \<open>
  The method mutates \<^verbatim>\<open>self\<close> and returns nothing: the model returns the new state of
  \<^verbatim>\<open>self\<close>, or the exception.
\<close>

definition FeatureSet_filter ::
  "featureset \<Rightarrow> val list option \<Rightarrow> val list option \<Rightarrow> pyobj list option \<Rightarrow> bool
     \<Rightarrow> error + featureset" where
  "FeatureSet_filter self ids_arg classes_arg features_arg inverse_arg =
     (case row_mask self ids_arg classes_arg inverse_arg of
        Inl e \<Rightarrow> Inl e
      | Inr msk \<Rightarrow>
     (case bool_index (ids self) msk of
        Inl e \<Rightarrow> Inl e
      | Inr ids' \<Rightarrow>
     (case bool_index (classes self) msk of
        Inl e \<Rightarrow> Inl e
      | Inr classes' \<Rightarrow>
     (case bool_index_rows (features self) msk of
        Inl e \<Rightarrow> Inl e
      | Inr m \<Rightarrow>
     (case filter_columns (feat_vectorizer self) m features_arg inverse_arg of
        Inl e \<Rightarrow> Inl e
      | Inr m' \<Rightarrow>
          Inr (self\<lparr>ids := Some ids', classes := Some classes', features := Some m'\<rparr>))))))"

subsection \<open>\<^verbatim>\<open>__init__\<close> (line 39)\<close>

text \<open>
  The attributes are stored as given. When a feature matrix is given, \<^verbatim>\<open>num_feats\<close> is
  \<^verbatim>\<open>features.shape[1]\<close>, missing \<^verbatim>\<open>ids\<close> and \<^verbatim>\<open>classes\<close> become NaN arrays of that
  length, and \<^verbatim>\<open>num_ids\<close> and \<^verbatim>\<open>num_classes\<close> are read from index 1 of the shapes of
  \<^verbatim>\<open>ids\<close> and \<^verbatim>\<open>classes\<close>. The message of the second \<^verbatim>\<open>raise\<close> (line 60) is built
  with \<^verbatim>\<open>%\<close> from a template that has no \<^verbatim>\<open>%\<close> directive, which is a TypeError.
\<close>

definition FeatureSet_init ::
  "val list option \<Rightarrow> val list option \<Rightarrow> matrix option \<Rightarrow> vectorizer option
     \<Rightarrow> error + featureset" where
  "FeatureSet_init ids_arg classes_arg features_arg vec_arg =
     (case features_arg of
        None \<Rightarrow>
          Inr \<lparr>ids = ids_arg, classes = classes_arg, features = None,
               feat_vectorizer = vec_arg\<rparr>
      | Some m \<Rightarrow>
     (case tuple_index (shape m) 1 of
        Inl e \<Rightarrow> Inl e
      | Inr num_feats \<Rightarrow>
          let ids' = (case ids_arg of None \<Rightarrow> np_empty_fill_None num_feats | Some a \<Rightarrow> a);
              classes' =
                (case classes_arg of None \<Rightarrow> np_empty_fill_None num_feats | Some a \<Rightarrow> a)
          in
     (case tuple_index (shape1 ids') 1 of
        Inl e \<Rightarrow> Inl e
      | Inr num_ids \<Rightarrow>
     (case tuple_index (shape1 classes') 1 of
        Inl e \<Rightarrow> Inl e
      | Inr num_classes \<Rightarrow>
          if num_feats \<noteq> num_ids then Inl ShapeMismatch
          else if num_feats \<noteq> num_classes then Inl TypeError
          else Inr \<lparr>ids = Some ids', classes = Some classes', features = Some m,
                    feat_vectorizer = vec_arg\<rparr>))))"

subsection \<open>\<^verbatim>\<open>__iter__\<close> (line 66)\<close>

text \<open>
  \<^verbatim>\<open>zip\<close> stops with its shortest argument; an attribute that is \<^verbatim>\<open>None\<close> cannot be
  iterated (TypeError).
\<close>

definition py_zip3 ::
  "val list option \<Rightarrow> val list option \<Rightarrow> matrix option
     \<Rightarrow> error + (val \<times> val \<times> int list) list" where
  "py_zip3 a b c =
     (case a of None \<Rightarrow> Inl TypeError | Some xs \<Rightarrow>
     (case b of None \<Rightarrow> Inl TypeError | Some ys \<Rightarrow>
     (case c of None \<Rightarrow> Inl TypeError | Some m \<Rightarrow> Inr (zip xs (zip ys (rows m))))))"

definition FeatureSet_iter :: "featureset \<Rightarrow> error + (val \<times> val \<times> int list) list" where
  "FeatureSet_iter self =
     (if features self \<noteq> None then py_zip3 (ids self) (classes self) (features self)
      else Inr [])"

subsection \<open>\<^verbatim>\<open>__add__\<close> (line 78)\<close>

text \<open>Lines 94 to 97: the two lists of feature names must not share a name.\<close>

definition check_duplicates :: "featureset \<Rightarrow> featureset \<Rightarrow> error + unit" where
  "check_duplicates self other =
     (case get_feature_names (feat_vectorizer self) of
        Inl e \<Rightarrow> Inl e
      | Inr a \<Rightarrow>
     (case get_feature_names (feat_vectorizer other) of
        Inl e \<Rightarrow> Inl e
      | Inr b \<Rightarrow> if list_ex (\<lambda>x. x \<in> set b) a then Inl DuplicateFeatureName else Inr ()))"

text \<open>
  Lines 106 to 109: the loop over \<^verbatim>\<open>vocab\<close>, on the dictionary and the name list of the
  new vectorizer. \<^verbatim>\<open>d[k] = v\<close> replaces the value of a key that is present and adds a key
  that is not.
\<close>

fun shift_loop ::
  "int \<Rightarrow> (string \<times> int) list \<Rightarrow> (string \<times> int) list \<times> string list
     \<Rightarrow> (string \<times> int) list \<times> string list" where
  "shift_loop num_feats [] (voc, ns) = (voc, ns)"
| "shift_loop num_feats ((feat_name, index) # vocab) (voc, ns) =
     shift_loop num_feats vocab
       (AList.update feat_name (index + num_feats) voc, ns @ [feat_name])"

text \<open>
  Lines 101 to 109: the vectorizer of the new set is a deep copy of the vectorizer of
  \<^verbatim>\<open>self\<close>; \<^verbatim>\<open>vocab\<close> is the vocabulary of that copy, sorted by index.
\<close>

fun new_vectorizer :: "nat \<Rightarrow> vectorizer option \<Rightarrow> vectorizer option" where
  "new_vectorizer num_feats (Some (DictVectorizer voc ns)) =
     (let vocab = sort_key snd voc;
          (voc', ns') = shift_loop (int num_feats) vocab (voc, ns)
      in Some (DictVectorizer voc' ns'))"
| "new_vectorizer num_feats v = v"

text \<open>Lines 85 to 112: the feature matrix and the vectorizer of the new set.\<close>

definition merge_features ::
  "featureset \<Rightarrow> featureset \<Rightarrow> error + matrix option \<times> vectorizer option" where
  "merge_features self other =
     (case features self of
        None \<Rightarrow> Inr (features other, feat_vectorizer other)
      | Some sf \<Rightarrow>
          if type_of (feat_vectorizer self) \<noteq> type_of (feat_vectorizer other)
          then Inl IncompatibleVectorizer
          else
            let feature_hasher = (type_of (feat_vectorizer self) = FeatureHasherType) in
     (case (if \<not> feature_hasher then check_duplicates self other else Inr ()) of
        Inl e \<Rightarrow> Inl e
      | Inr _ \<Rightarrow>
     (case tuple_index (shape sf) 1 of
        Inl e \<Rightarrow> Inl e
      | Inr num_feats \<Rightarrow>
     (case hstack sf (features other) of
        Inl e \<Rightarrow> Inl e
      | Inr m \<Rightarrow>
          Inr (Some m,
               if \<not> feature_hasher then new_vectorizer num_feats (feat_vectorizer self)
               else feat_vectorizer self)))))"

text \<open>
  Lines 120 to 127: the classes of the new set. They are assigned in one case only, when
  \<^verbatim>\<open>other\<close> has a label and \<^verbatim>\<open>self.classes\<close> is \<^verbatim>\<open>None\<close>; the argument is the value
  they have before, \<^verbatim>\<open>None\<close> in a fresh set.
\<close>

definition merge_classes ::
  "val list option \<Rightarrow> featureset \<Rightarrow> featureset \<Rightarrow> error + val list option" where
  "merge_classes new_classes self other =
     (case classes other of
        None \<Rightarrow> Inl TypeError
      | Some oc \<Rightarrow>
          if list_ex (\<lambda>x. x \<noteq> PyNone) oc
          then (if classes self = None then Inr (classes other)
                else if \<not> np_all_eq (classes self) (classes other) then Inl ConflictingLabels
                else Inr new_classes)
          else Inr new_classes)"

text \<open>
  The whole method. \<^verbatim>\<open>new_set\<close> is made by \<^verbatim>\<open>FeatureSet()\<close>; only its \<^verbatim>\<open>features\<close>,
  \<^verbatim>\<open>feat_vectorizer\<close> and \<^verbatim>\<open>classes\<close> are assigned afterwards.
\<close>

definition FeatureSet_add :: "featureset \<Rightarrow> featureset \<Rightarrow> error + featureset" where
  "FeatureSet_add self other =
     (case FeatureSet_init None None None None of
        Inl e \<Rightarrow> Inl e
      | Inr new_set \<Rightarrow>
     (case merge_features self other of
        Inl e \<Rightarrow> Inl e
      | Inr (m, v) \<Rightarrow>
          if \<not> np_all_eq (ids self) (ids other) then Inl MisalignedIds
          else
     (case merge_classes (classes new_set) self other of
        Inl e \<Rightarrow> Inl e
      | Inr c \<Rightarrow> Inr (new_set\<lparr>classes := c, features := m, feat_vectorizer := v\<rparr>))))"

subsection \<open>\<^verbatim>\<open>filtered_iter\<close> (line 173)\<close>

text \<open>Lines 205 to 214: the row that is yielded for an example that is not skipped.\<close>

definition yield_row :: "int list option \<Rightarrow> bool \<Rightarrow> int list \<Rightarrow> error + int list" where
  "yield_row columns inverse_arg ex_feats =
     (case columns of
        Some cols \<Rightarrow>
          if inverse_arg then int_index ex_feats cols
          else (case np_invert cols of
                  Inl e \<Rightarrow> Inl e
                | Inr cs \<Rightarrow> int_index ex_feats cs)
      | None \<Rightarrow> if inverse_arg then Inr ex_feats else Inr [])"

text \<open>
  Lines 197 to 214: the loop. The result is the list of all triples the generator yields
  when it is run to its end, or the exception that stops it.
\<close>

fun iter_loop ::
  "val list option \<Rightarrow> val list option \<Rightarrow> int list option \<Rightarrow> bool
     \<Rightarrow> (val \<times> val \<times> int list) list \<Rightarrow> error + (val \<times> val \<times> int list) list" where
  "iter_loop ids_arg classes_arg columns inverse_arg [] = Inr []"
| "iter_loop ids_arg classes_arg columns inverse_arg ((ex_id, ex_class, ex_feats) # rest) =
     (if (case ids_arg of None \<Rightarrow> False | Some l \<Rightarrow> py_in ex_id l = inverse_arg)
      then iter_loop ids_arg classes_arg columns inverse_arg rest
      else if (case classes_arg of None \<Rightarrow> False | Some l \<Rightarrow> py_in ex_class l = inverse_arg)
      then iter_loop ids_arg classes_arg columns inverse_arg rest
      else (case yield_row columns inverse_arg ex_feats of
              Inl e \<Rightarrow> Inl e
            | Inr r \<Rightarrow>
                (case iter_loop ids_arg classes_arg columns inverse_arg rest of
                   Inl e \<Rightarrow> Inl e
                 | Inr out \<Rightarrow> Inr ((ex_id, ex_class, r) # out))))"

definition filtered_iter ::
  "featureset \<Rightarrow> val list option \<Rightarrow> val list option \<Rightarrow> pyobj list option \<Rightarrow> bool
     \<Rightarrow> error + (val \<times> val \<times> int list) list" where
  "filtered_iter self ids_arg classes_arg features_arg inverse_arg =
     (case (case features_arg of
              None \<Rightarrow> Inr None
            | Some xs \<Rightarrow> (case resolve_columns (feat_vectorizer self) xs of
                            Inl e \<Rightarrow> Inl e
                          | Inr cs \<Rightarrow> Inr (Some cs))) of
        Inl e \<Rightarrow> Inl e
      | Inr columns \<Rightarrow>
     (case py_zip3 (ids self) (classes self) (features self) of
        Inl e \<Rightarrow> Inl e
      | Inr triples \<Rightarrow> iter_loop ids_arg classes_arg columns inverse_arg triples))"

subsection \<open>\<^verbatim>\<open>__sub__\<close> (line 216)\<close>

text \<open>
  \<^verbatim>\<open>filter\<close> is called on a deep copy of \<^verbatim>\<open>self\<close>, with the feature matrix of \<^verbatim>\<open>other\<close>
  as its \<^verbatim>\<open>features\<close> argument: iterating a matrix gives its rows.
\<close>

definition FeatureSet_sub :: "featureset \<Rightarrow> featureset \<Rightarrow> error + featureset" where
  "FeatureSet_sub self other =
     (let new_set = self
      in FeatureSet_filter new_set None None
           (map_option (\<lambda>m. map PyRow (rows m)) (features other)) True)"

section \<open>\<^verbatim>\<open>__add__\<close> on a store of objects\<close>

text \<open>
  Whether \<^verbatim>\<open>__add__\<close> changes its operands depends on which object each assignment
  writes to, so here the method runs on a store. A \<^verbatim>\<open>FeatureSet\<close> object holds its three
  arrays (which this module never changes in place: it only rebinds the attributes) and a
  reference to its vectorizer object, whose dictionary and name list the loop of lines 106
  to 109 changes in place. \<^verbatim>\<open>FeatureSet()\<close> and \<^verbatim>\<open>deepcopy\<close> allocate at \<open>next_ref\<close>.
\<close>

type_synonym ref = nat

record fs_object =
  o_ids :: "val list option"
  o_classes :: "val list option"
  o_features :: "matrix option"
  o_feat_vectorizer :: "ref option"

record heap =
  next_ref :: ref
  fs_objects :: "ref \<Rightarrow> fs_object option"
  vec_objects :: "ref \<Rightarrow> vectorizer option"

definition get_vec :: "heap \<Rightarrow> ref option \<Rightarrow> vectorizer option" where
  "get_vec h r = (case r of None \<Rightarrow> None | Some a \<Rightarrow> vec_objects h a)"

text \<open>The value of the \<^verbatim>\<open>FeatureSet\<close> object at a reference.\<close>

definition read_fs :: "heap \<Rightarrow> ref \<Rightarrow> featureset option" where
  "read_fs h r =
     (case fs_objects h r of
        None \<Rightarrow> None
      | Some ob \<Rightarrow>
          Some \<lparr>ids = o_ids ob, classes = o_classes ob, features = o_features ob,
                feat_vectorizer = get_vec h (o_feat_vectorizer ob)\<rparr>)"

text \<open>
  An operand that exists before the call: the object and its vectorizer lie below
  \<open>next_ref\<close>.
\<close>

definition allocated :: "heap \<Rightarrow> ref \<Rightarrow> bool" where
  "allocated h r =
     (r < next_ref h \<and>
      (case fs_objects h r of
         None \<Rightarrow> False
       | Some ob \<Rightarrow> (case o_feat_vectorizer ob of None \<Rightarrow> True | Some v \<Rightarrow> v < next_ref h)))"

text \<open>\<^verbatim>\<open>FeatureSet()\<close>: a new object, every attribute \<^verbatim>\<open>None\<close>.\<close>

definition new_FeatureSet :: "heap \<Rightarrow> ref \<times> heap" where
  "new_FeatureSet h =
     (next_ref h,
      h\<lparr>next_ref := Suc (next_ref h),
        fs_objects := (fs_objects h)(next_ref h \<mapsto>
          \<lparr>o_ids = None, o_classes = None, o_features = None, o_feat_vectorizer = None\<rparr>)\<rparr>)"

text \<open>\<^verbatim>\<open>deepcopy(v)\<close> of a vectorizer attribute: \<^verbatim>\<open>None\<close>, or a new object with the same value.\<close>

definition deepcopy_vec :: "ref option \<Rightarrow> heap \<Rightarrow> ref option \<times> heap" where
  "deepcopy_vec r h =
     (case get_vec h r of
        None \<Rightarrow> (None, h)
      | Some v \<Rightarrow>
          (Some (next_ref h),
           h\<lparr>next_ref := Suc (next_ref h), vec_objects := (vec_objects h)(next_ref h \<mapsto> v)\<rparr>))"

text \<open>An assignment to attributes of the object at \<open>r\<close>.\<close>

definition set_fs :: "ref \<Rightarrow> (fs_object \<Rightarrow> fs_object) \<Rightarrow> heap \<Rightarrow> heap" where
  "set_fs r f h = h\<lparr>fs_objects := (fs_objects h)(r := map_option f (fs_objects h r))\<rparr>"

text \<open>One pass of the loop body (lines 107 to 109) on the vectorizer object at \<open>r\<close>.\<close>

fun shift_entry :: "int \<Rightarrow> string \<times> int \<Rightarrow> vectorizer \<Rightarrow> vectorizer" where
  "shift_entry num_feats (feat_name, index) (DictVectorizer voc ns) =
     DictVectorizer (AList.update feat_name (index + num_feats) voc) (ns @ [feat_name])"
| "shift_entry num_feats (feat_name, index) (FeatureHasher n f) = FeatureHasher n f"

fun shift_loop_heap :: "int \<Rightarrow> (string \<times> int) list \<Rightarrow> ref \<Rightarrow> heap \<Rightarrow> heap" where
  "shift_loop_heap num_feats [] r h = h"
| "shift_loop_heap num_feats (entry # vocab) r h =
     shift_loop_heap num_feats vocab r
       (h\<lparr>vec_objects :=
            (vec_objects h)(r := map_option (shift_entry num_feats entry) (vec_objects h r))\<rparr>)"

text \<open>
  Lines 85 to 112 on the store. \<open>a\<close> and \<open>b\<close> are the values of \<^verbatim>\<open>self\<close> and \<^verbatim>\<open>other\<close>,
  \<open>sv\<close> and \<open>ov\<close> their vectorizer references, \<open>new_set\<close> the reference of the new set.
\<close>

definition merge_features_heap ::
  "featureset \<Rightarrow> featureset \<Rightarrow> ref option \<Rightarrow> ref option \<Rightarrow> ref \<Rightarrow> heap
     \<Rightarrow> (error + unit) \<times> heap" where
  "merge_features_heap a b sv ov new_set h =
     (case features a of
        None \<Rightarrow>
          (let (v, h') = deepcopy_vec ov (set_fs new_set (\<lambda>ob. ob\<lparr>o_features := features b\<rparr>) h)
           in (Inr (), set_fs new_set (\<lambda>ob. ob\<lparr>o_feat_vectorizer := v\<rparr>) h'))
      | Some sf \<Rightarrow>
          if type_of (feat_vectorizer a) \<noteq> type_of (feat_vectorizer b)
          then (Inl IncompatibleVectorizer, h)
          else
            let feature_hasher = (type_of (feat_vectorizer a) = FeatureHasherType) in
     (case (if \<not> feature_hasher then check_duplicates a b else Inr ()) of
        Inl e \<Rightarrow> (Inl e, h)
      | Inr _ \<Rightarrow>
     (case tuple_index (shape sf) 1 of
        Inl e \<Rightarrow> (Inl e, h)
      | Inr num_feats \<Rightarrow>
     (case hstack sf (features b) of
        Inl e \<Rightarrow> (Inl e, h)
      | Inr m \<Rightarrow>
          (let (v, h') = deepcopy_vec sv (set_fs new_set (\<lambda>ob. ob\<lparr>o_features := Some m\<rparr>) h);
               h'' = set_fs new_set (\<lambda>ob. ob\<lparr>o_feat_vectorizer := v\<rparr>) h'
           in if \<not> feature_hasher
              then (case v of
                      None \<Rightarrow> (Inr (), h'')
                    | Some r \<Rightarrow>
                        (case vec_objects h'' r of
                           Some (DictVectorizer voc ns) \<Rightarrow>
                             (Inr (), shift_loop_heap (int num_feats) (sort_key snd voc) r h'')
                         | _ \<Rightarrow> (Inr (), h'')))
              else (Inr (), h''))))))"

text \<open>
  The whole method on the store. It returns the reference of the new set or the exception,
  and the store it leaves behind in either case.
\<close>

definition add_heap :: "ref \<Rightarrow> ref \<Rightarrow> heap \<Rightarrow> (error + ref) \<times> heap" where
  "add_heap self other h =
     (case (fs_objects h self, fs_objects h other) of
        (Some so, Some oo) \<Rightarrow>
          (let a = \<lparr>ids = o_ids so, classes = o_classes so, features = o_features so,
                    feat_vectorizer = get_vec h (o_feat_vectorizer so)\<rparr>;
               b = \<lparr>ids = o_ids oo, classes = o_classes oo, features = o_features oo,
                    feat_vectorizer = get_vec h (o_feat_vectorizer oo)\<rparr>;
               (new_set, h1) = new_FeatureSet h
           in (case merge_features_heap a b (o_feat_vectorizer so) (o_feat_vectorizer oo)
                      new_set h1 of
                 (Inl e, h2) \<Rightarrow> (Inl e, h2)
               | (Inr _, h2) \<Rightarrow>
                   if \<not> np_all_eq (ids a) (ids b) then (Inl MisalignedIds, h2)
                   else (case merge_classes None a b of
                           Inl e \<Rightarrow> (Inl e, h2)
                         | Inr c \<Rightarrow>
                             (Inr new_set, set_fs new_set (\<lambda>ob. ob\<lparr>o_classes := c\<rparr>) h2))))
      | _ \<Rightarrow> (Inl AttributeError, h))"

section \<open>Concrete feature sets\<close>

text \<open>
  The example of the specification: ids 1, 2, 3, classes x, x, y and the feature f1 on the
  left; the same ids, no class and the feature f2 on the right.
\<close>

definition example_A :: featureset where
  "example_A =
     \<lparr>ids = Some [IntV 1, IntV 2, IntV 3],
      classes = Some [StrV ''x'', StrV ''x'', StrV ''y''],
      features = Some \<lparr>ncols = 1, rows = [[10], [20], [30]]\<rparr>,
      feat_vectorizer = Some (DictVectorizer [(''f1'', 0)] [''f1''])\<rparr>"

definition example_B :: featureset where
  "example_B =
     \<lparr>ids = Some [IntV 1, IntV 2, IntV 3],
      classes = Some [PyNone, PyNone, PyNone],
      features = Some \<lparr>ncols = 1, rows = [[7], [8], [9]]\<rparr>,
      feat_vectorizer = Some (DictVectorizer [(''f2'', 0)] [''f2''])\<rparr>"

text \<open>Three examples with three features, and two examples with two and with one.\<close>

definition example_S :: featureset where
  "example_S =
     \<lparr>ids = Some [IntV 1, IntV 2, IntV 3],
      classes = Some [StrV ''x'', StrV ''x'', StrV ''y''],
      features = Some \<lparr>ncols = 3, rows = [[10, 11, 12], [20, 21, 22], [30, 31, 32]]\<rparr>,
      feat_vectorizer =
        Some (DictVectorizer [(''f0'', 0), (''f1'', 1), (''f2'', 2)] [''f0'', ''f1'', ''f2''])\<rparr>"

definition example_P :: featureset where
  "example_P =
     \<lparr>ids = Some [IntV 1, IntV 2],
      classes = Some [StrV ''x'', StrV ''y''],
      features = Some \<lparr>ncols = 2, rows = [[1, 2], [3, 4]]\<rparr>,
      feat_vectorizer = Some (DictVectorizer [(''a'', 0), (''b'', 1)] [''a'', ''b''])\<rparr>"

definition example_Q :: featureset where
  "example_Q =
     \<lparr>ids = Some [IntV 1, IntV 2],
      classes = Some [StrV ''x'', StrV ''y''],
      features = Some \<lparr>ncols = 1, rows = [[5], [6]]\<rparr>,
      feat_vectorizer = Some (DictVectorizer [(''c'', 0)] [''c''])\<rparr>"

text \<open>Three examples with two features.\<close>

definition example_T :: featureset where
  "example_T =
     \<lparr>ids = Some [IntV 1, IntV 2, IntV 3],
      classes = Some [StrV ''x'', StrV ''x'', StrV ''y''],
      features = Some \<lparr>ncols = 2, rows = [[10, 11], [20, 21], [30, 31]]\<rparr>,
      feat_vectorizer = Some (DictVectorizer [(''f0'', 0), (''f1'', 1)] [''f0'', ''f1''])\<rparr>"

text \<open>
  A store with two sets of the same two features over different ids, each with a
  vectorizer object of its own.
\<close>

definition example_heap :: heap where
  "example_heap =
     \<lparr>next_ref = 4,
      fs_objects = [0 \<mapsto> \<lparr>o_ids = Some [IntV 1, IntV 2], o_classes = Some [PyNone, PyNone],
                           o_features = Some \<lparr>ncols = 1, rows = [[1], [2]]\<rparr>,
                           o_feat_vectorizer = Some 2\<rparr>,
                    1 \<mapsto> \<lparr>o_ids = Some [IntV 2, IntV 1], o_classes = Some [PyNone, PyNone],
                           o_features = Some \<lparr>ncols = 1, rows = [[3], [4]]\<rparr>,
                           o_feat_vectorizer = Some 3\<rparr>],
      vec_objects = [2 \<mapsto> DictVectorizer [(''a'', 0)] [''a''],
                     3 \<mapsto> DictVectorizer [(''b'', 0)] [''b'']]\<rparr>"

section \<open>Properties\<close>

subsection \<open>Unfolding the model\<close>

lemmas np_defs = val_eq_def shape_def shape1_def tuple_index_def np_ones_def
  np_empty_fill_None_def broadcast2_def np_logical_and_def np_logical_not_def as_array_def
  py_in_def np_in1d_def np_all_eq_def select_def bool_index_def bool_index_rows_def
  norm_index_def np_invert_def int_index_def int_index_cols_def hstack_def

lemmas fs_defs = FeatureSet_len_def initial_mask_def row_mask_def resolve_columns_def
  filter_columns_def FeatureSet_filter_def FeatureSet_init_def py_zip3_def FeatureSet_iter_def
  check_duplicates_def merge_features_def merge_classes_def FeatureSet_add_def yield_row_def
  filtered_iter_def FeatureSet_sub_def

lemmas heap_defs = add_heap_def new_FeatureSet_def merge_features_heap_def get_vec_def
  deepcopy_vec_def set_fs_def read_fs_def allocated_def

subsection \<open>The store: what \<^verbatim>\<open>__add__\<close> writes to\<close>

text \<open>
  The loop writes to one vectorizer object only; \<^verbatim>\<open>deepcopy\<close> and the attribute
  assignments touch nothing that existed before, apart from the object they are told to
  change.
\<close>

lemma shift_loop_heap_frame:
  "next_ref (shift_loop_heap n vocab r h) = next_ref h
   \<and> fs_objects (shift_loop_heap n vocab r h) = fs_objects h
   \<and> (\<forall>r'. r' \<noteq> r \<longrightarrow> vec_objects (shift_loop_heap n vocab r h) r' = vec_objects h r')"
  by (induction vocab arbitrary: h) auto

lemma shift_loop_heap_value:
  "vec_objects h r = Some (DictVectorizer voc ns) \<Longrightarrow>
   vec_objects (shift_loop_heap n vocab r h) r =
     Some (case shift_loop n vocab (voc, ns) of (voc', ns') \<Rightarrow> DictVectorizer voc' ns')"
proof (induction vocab arbitrary: h voc ns)
  case Nil
  then show ?case by simp
next
  case (Cons entry vocab)
  obtain feat_name index where e: "entry = (feat_name, index)" by (cases entry)
  show ?case
    using Cons.prems by (simp add: e Cons.IH)
qed

lemma deepcopy_vec_frame:
  assumes "deepcopy_vec rv h = (v, h')"
  shows "fs_objects h' = fs_objects h"
    and "r < next_ref h \<Longrightarrow> vec_objects h' r = vec_objects h r"
    and "next_ref h \<le> next_ref h'"
    and "get_vec h' v = get_vec h rv"
    and "v = None \<or> v = Some (next_ref h)"
  using assms by (auto simp: deepcopy_vec_def get_vec_def split: option.splits)

lemma set_fs_frame:
  "next_ref (set_fs r f h) = next_ref h"
  "vec_objects (set_fs r f h) = vec_objects h"
  "r' \<noteq> r \<Longrightarrow> fs_objects (set_fs r f h) r' = fs_objects h r'"
  by (simp_all add: set_fs_def)

lemma merge_features_heap_frame:
  assumes "merge_features_heap a b sv ov new_set h = (res, h')"
  shows "(\<forall>r. r \<noteq> new_set \<longrightarrow> fs_objects h' r = fs_objects h r)
       \<and> (\<forall>r. r < next_ref h \<longrightarrow> vec_objects h' r = vec_objects h r)"
proof (cases "features a")
  case None
  obtain v h1 where d: "deepcopy_vec ov (set_fs new_set (\<lambda>ob. ob\<lparr>o_features := features b\<rparr>) h) = (v, h1)"
    by (cases "deepcopy_vec ov (set_fs new_set (\<lambda>ob. ob\<lparr>o_features := features b\<rparr>) h)")
  have h': "h' = set_fs new_set (\<lambda>ob. ob\<lparr>o_feat_vectorizer := v\<rparr>) h1"
    using assms None d by (simp add: merge_features_heap_def)
  show ?thesis
    using deepcopy_vec_frame(1,2)[OF d] by (simp add: h' set_fs_frame)
next
  case (Some sf)
  show ?thesis
  proof (cases "h' = h")
    case True
    then show ?thesis by simp
  next
    case False
    then obtain m num_feats where m: "hstack sf (features b) = Inr m"
      and nf: "tuple_index (shape sf) 1 = Inr num_feats"
      using assms Some
      by (auto simp: merge_features_heap_def Let_def split: if_splits sum.splits)
    obtain v h1 where d: "deepcopy_vec sv (set_fs new_set (\<lambda>ob. ob\<lparr>o_features := Some m\<rparr>) h) = (v, h1)"
      by (cases "deepcopy_vec sv (set_fs new_set (\<lambda>ob. ob\<lparr>o_features := Some m\<rparr>) h)")
    define h2 where "h2 = set_fs new_set (\<lambda>ob. ob\<lparr>o_feat_vectorizer := v\<rparr>) h1"
    have f2: "(\<forall>r. r \<noteq> new_set \<longrightarrow> fs_objects h2 r = fs_objects h r)
       \<and> (\<forall>r. r < next_ref h \<longrightarrow> vec_objects h2 r = vec_objects h r)"
      using deepcopy_vec_frame(1,2)[OF d] by (simp add: h2_def set_fs_frame)
    have "h' = h2 \<or> (\<exists>voc. h' = shift_loop_heap (int num_feats) voc (next_ref h) h2 \<and> v = Some (next_ref h))"
      using assms Some m nf d deepcopy_vec_frame(5)[OF d] False
      by (auto simp: merge_features_heap_def Let_def h2_def set_fs_frame
          split: if_splits sum.splits option.splits vectorizer.splits)
    then show ?thesis
      using f2 shift_loop_heap_frame by auto
  qed
qed

lemma add_heap_frame:
  assumes "add_heap self other h = (res, h')" and "r < next_ref h"
  shows "fs_objects h' r = fs_objects h r \<and> vec_objects h' r = vec_objects h r"
proof (cases "h' = h")
  case True
  then show ?thesis by simp
next
  case False
  then obtain so oo where so: "fs_objects h self = Some so" and oo: "fs_objects h other = Some oo"
    using assms(1) by (auto simp: add_heap_def split: option.splits)
  define a where "a = \<lparr>ids = o_ids so, classes = o_classes so, features = o_features so,
                    feat_vectorizer = get_vec h (o_feat_vectorizer so)\<rparr>"
  define b where "b = \<lparr>ids = o_ids oo, classes = o_classes oo, features = o_features oo,
                    feat_vectorizer = get_vec h (o_feat_vectorizer oo)\<rparr>"
  define h1 where "h1 = snd (new_FeatureSet h)"
  obtain res2 h2 where mf: "merge_features_heap a b (o_feat_vectorizer so) (o_feat_vectorizer oo)
                      (next_ref h) h1 = (res2, h2)"
    by (cases "merge_features_heap a b (o_feat_vectorizer so) (o_feat_vectorizer oo) (next_ref h) h1")
  have h1: "fs_objects h1 r = fs_objects h r" "vec_objects h1 = vec_objects h" "next_ref h1 = Suc (next_ref h)"
    using assms(2) by (simp_all add: h1_def new_FeatureSet_def)
  have h2: "fs_objects h2 r = fs_objects h r \<and> vec_objects h2 r = vec_objects h r"
    using merge_features_heap_frame[OF mf] h1 assms(2) by auto
  have "h' = h2 \<or> (\<exists>f. h' = set_fs (next_ref h) f h2)"
    using assms(1) so oo mf
    by (auto simp: add_heap_def Let_def new_FeatureSet_def a_def b_def h1_def
        split: if_splits sum.splits prod.splits)
  then show ?thesis
    using h2 assms(2) by (auto simp: set_fs_frame)
qed

subsection \<open>The store and the values agree\<close>

text \<open>
  \<open>add_heap\<close> computes what \<open>FeatureSet_add\<close> computes on the values of the operands:
  the same exception, or a new object whose value is the result.
\<close>

lemma get_vec_same:
  "vec_objects h' = vec_objects h \<Longrightarrow> get_vec h' r = get_vec h r"
  by (cases r) (simp_all add: get_vec_def)

lemma get_vec_set_fs: "get_vec (set_fs r f h) x = get_vec h x"
  by (rule get_vec_same) (simp add: set_fs_def)

lemma merge_features_heap_refines:
  assumes ob: "fs_objects h new_set = Some ob"
    and sv: "get_vec h sv = feat_vectorizer a" and ov: "get_vec h ov = feat_vectorizer b"
    and run: "merge_features_heap a b sv ov new_set h = (res, h')"
  shows "case res of
           Inl e \<Rightarrow> merge_features a b = Inl e
         | Inr _ \<Rightarrow>
             (\<exists>ob'. fs_objects h' new_set = Some ob' \<and> o_ids ob' = o_ids ob
                \<and> o_classes ob' = o_classes ob
                \<and> merge_features a b = Inr (o_features ob', get_vec h' (o_feat_vectorizer ob')))"
proof (cases "features a")
  case None
  obtain v h1 where d: "deepcopy_vec ov (set_fs new_set (\<lambda>ob. ob\<lparr>o_features := features b\<rparr>) h) = (v, h1)"
    by (cases "deepcopy_vec ov (set_fs new_set (\<lambda>ob. ob\<lparr>o_features := features b\<rparr>) h)")
  have r: "res = Inr ()" "h' = set_fs new_set (\<lambda>ob. ob\<lparr>o_feat_vectorizer := v\<rparr>) h1"
    using run None d by (simp_all add: merge_features_heap_def)
  have "get_vec h1 v = feat_vectorizer b"
    using deepcopy_vec_frame(4)[OF d] ov
    by (simp add: get_vec_set_fs)
  then show ?thesis
    using None ob deepcopy_vec_frame(1)[OF d]
    by (simp add: r merge_features_def get_vec_set_fs) (simp add: set_fs_def)
next
  case (Some sf)
  show ?thesis
  proof (cases res)
    case (Inl e)
    then show ?thesis
      using run Some
      by (auto simp: merge_features_heap_def merge_features_def Let_def
          split: if_splits sum.splits prod.splits option.splits vectorizer.splits)
  next
    case (Inr u)
    then obtain m num_feats where m: "hstack sf (features b) = Inr m"
      and nf: "tuple_index (shape sf) 1 = Inr num_feats"
      and ty: "type_of (feat_vectorizer a) = type_of (feat_vectorizer b)"
      and du: "type_of (feat_vectorizer a) \<noteq> FeatureHasherType \<Longrightarrow> check_duplicates a b = Inr ()"
      using run Some
      by (auto simp: merge_features_heap_def Let_def split: if_splits sum.splits)
    obtain v h1 where d: "deepcopy_vec sv (set_fs new_set (\<lambda>ob. ob\<lparr>o_features := Some m\<rparr>) h) = (v, h1)"
      by (cases "deepcopy_vec sv (set_fs new_set (\<lambda>ob. ob\<lparr>o_features := Some m\<rparr>) h)")
    define h2 where "h2 = set_fs new_set (\<lambda>ob. ob\<lparr>o_feat_vectorizer := v\<rparr>) h1"
    have gv: "get_vec h2 v = feat_vectorizer a"
      using deepcopy_vec_frame(4)[OF d] sv
      by (simp add: h2_def get_vec_set_fs)
    have o2: "fs_objects h2 new_set = Some (ob\<lparr>o_features := Some m, o_feat_vectorizer := v\<rparr>)"
      using ob deepcopy_vec_frame(1)[OF d] by (simp add: h2_def set_fs_def)
    have pure: "merge_features a b =
        Inr (Some m, if type_of (feat_vectorizer a) \<noteq> FeatureHasherType
                     then new_vectorizer num_feats (feat_vectorizer a) else feat_vectorizer a)"
      using Some m nf ty du by (auto simp: merge_features_def Let_def)
    show ?thesis
    proof (cases "feat_vectorizer a")
      case None
      then have "h' = h2"
        using run Some m nf ty du d gv
        by (auto simp: merge_features_heap_def Let_def h2_def get_vec_def
            split: if_splits option.splits)
      then show ?thesis
        using Inr o2 gv pure None by simp
    next
      case vv: (Some vec)
      then obtain r where v: "v = Some r" and vr: "vec_objects h2 r = Some vec"
        using gv by (auto simp: get_vec_def split: option.splits)
      show ?thesis
      proof (cases vec)
        case (DictVectorizer voc ns)
        have h': "h' = shift_loop_heap (int num_feats) (sort_key snd voc) r h2"
          using run Some m nf ty du d v vr vv DictVectorizer
          by (simp add: merge_features_heap_def Let_def h2_def)
        have "vec_objects h' r = new_vectorizer num_feats (Some vec)"
          using shift_loop_heap_value[of h2 r voc ns "int num_feats" "sort_key snd voc"] vr
          by (simp add: h' DictVectorizer split: prod.splits)
        then show ?thesis
          using Inr o2 pure vv v shift_loop_heap_frame[of "int num_feats" "sort_key snd voc" r h2]
          by (simp add: h' DictVectorizer get_vec_def)
      next
        case (FeatureHasher n f)
        have h': "h' = h2"
          using run Some m nf ty du d v vr vv FeatureHasher
          by (simp add: merge_features_heap_def Let_def h2_def)
        then show ?thesis
          using Inr o2 pure vv gv FeatureHasher by simp
      qed
    qed
  qed
qed

lemma get_vec_new_FeatureSet: "get_vec (snd (new_FeatureSet h)) x = get_vec h x"
  by (rule get_vec_same) (simp add: new_FeatureSet_def)

lemma add_heap_refines:
  assumes a: "read_fs h self = Some a" and b: "read_fs h other = Some b"
    and run: "add_heap self other h = (res, h')"
  shows "case res of
           Inl e \<Rightarrow> FeatureSet_add a b = Inl e
         | Inr r \<Rightarrow> (\<exists>x. read_fs h' r = Some x \<and> FeatureSet_add a b = Inr x)"
proof -
  obtain so where so: "fs_objects h self = Some so"
    and a': "a = \<lparr>ids = o_ids so, classes = o_classes so, features = o_features so,
                    feat_vectorizer = get_vec h (o_feat_vectorizer so)\<rparr>"
    using a by (auto simp: read_fs_def split: option.splits)
  obtain oo where oo: "fs_objects h other = Some oo"
    and b': "b = \<lparr>ids = o_ids oo, classes = o_classes oo, features = o_features oo,
                    feat_vectorizer = get_vec h (o_feat_vectorizer oo)\<rparr>"
    using b by (auto simp: read_fs_def split: option.splits)
  define h1 where "h1 = snd (new_FeatureSet h)"
  define new_set where "new_set = next_ref h"
  define ob where "ob = \<lparr>o_ids = None, o_classes = None, o_features = None, o_feat_vectorizer = None\<rparr>"
  obtain res2 h2 where mf: "merge_features_heap a b (o_feat_vectorizer so) (o_feat_vectorizer oo)
                      new_set h1 = (res2, h2)"
    by (cases "merge_features_heap a b (o_feat_vectorizer so) (o_feat_vectorizer oo) new_set h1")
  have o1: "fs_objects h1 new_set = Some ob"
    by (simp add: h1_def new_set_def ob_def new_FeatureSet_def)
  have g1: "get_vec h1 (o_feat_vectorizer so) = feat_vectorizer a"
    "get_vec h1 (o_feat_vectorizer oo) = feat_vectorizer b"
    by (simp_all add: a' b' h1_def get_vec_new_FeatureSet)
  note ref = merge_features_heap_refines[OF o1 g1 mf]
  have init: "FeatureSet_init None None None None =
      Inr \<lparr>ids = None, classes = None, features = None, feat_vectorizer = None\<rparr>"
    by (simp add: FeatureSet_init_def)
  have unf: "add_heap self other h =
     (case (res2, h2) of
        (Inl e, h2) \<Rightarrow> (Inl e, h2)
      | (Inr _, h2) \<Rightarrow>
          if \<not> np_all_eq (ids a) (ids b) then (Inl MisalignedIds, h2)
          else (case merge_classes None a b of
                  Inl e \<Rightarrow> (Inl e, h2)
                | Inr c \<Rightarrow> (Inr new_set, set_fs new_set (\<lambda>ob. ob\<lparr>o_classes := c\<rparr>) h2)))"
    using so oo mf
    by (simp add: add_heap_def a' b' new_FeatureSet_def h1_def new_set_def Let_def
        split: sum.splits)
  show ?thesis
  proof (cases res2)
    case (Inl e)
    then show ?thesis
      using run ref unf by (auto simp: FeatureSet_add_def init)
  next
    case (Inr u)
    then obtain ob' where ob': "fs_objects h2 new_set = Some ob'" "o_ids ob' = None"
      "o_classes ob' = None"
      "merge_features a b = Inr (o_features ob', get_vec h2 (o_feat_vectorizer ob'))"
      using ref by (auto simp: ob_def)
    show ?thesis
      using run unf Inr ob'
      by (auto simp: FeatureSet_add_def init read_fs_def set_fs_def get_vec_def
          split: if_splits sum.splits option.splits)
  qed
qed

subsection \<open>The constructor\<close>

text \<open>
  With a feature matrix the constructor always stops at line 54 or 55: \<^verbatim>\<open>ids\<close> and
  \<^verbatim>\<open>classes\<close> are one-dimensional, so their shape has no index 1.
\<close>

lemma init_with_features: "FeatureSet_init i c (Some m) v = Inl IndexError"
  by (simp add: np_defs fs_defs Let_def)

lemma init_without_features:
  "FeatureSet_init i c None v =
     Inr \<lparr>ids = i, classes = c, features = None, feat_vectorizer = v\<rparr>"
  by (simp add: FeatureSet_init_def)

subsection \<open>What \<^verbatim>\<open>__add__\<close> returns\<close>

text \<open>
  The new set never has ids, and it has classes only when the left operand has none and
  the right operand has a label.
\<close>

lemma add_result_ids: "FeatureSet_add a b = Inr r \<Longrightarrow> ids r = None"
  by (auto simp: FeatureSet_add_def init_without_features split: if_splits sum.splits prod.splits)

lemma add_result_classes:
  assumes "FeatureSet_add a b = Inr r"
  shows "classes r = (if classes a = None \<and> (\<exists>x \<in> set (as_array (classes b)). x \<noteq> PyNone)
                      then classes b else None)"
  using assms
  by (auto simp: FeatureSet_add_def init_without_features merge_classes_def as_array_def
      list_ex_iff split: if_splits sum.splits prod.splits option.splits)

text \<open>
  For a Dictionary vectorizer with distinct keys the loop moves every name of the left
  vocabulary up by the column count of the left matrix, and adds no other name.
\<close>

lemma shift_loop_lookup:
  "distinct (map fst es) \<Longrightarrow>
   map_of (fst (shift_loop k es (voc, ns))) name =
     (case map_of es name of Some i \<Rightarrow> Some (i + k) | None \<Rightarrow> map_of voc name)"
proof (induction es arbitrary: voc ns)
  case Nil
  then show ?case by simp
next
  case (Cons e es)
  obtain f i where e: "e = (f, i)" by (cases e)
  have "f \<notin> fst ` set es" using Cons.prems by (simp add: e)
  then have none: "map_of es f = None" by (simp add: map_of_eq_None_iff)
  show ?case
    using Cons.prems none by (simp add: e Cons.IH update_conv' split: option.splits)
qed

lemma shift_loop_names:
  "snd (shift_loop k es (voc, ns)) = ns @ map fst es"
  by (induction es arbitrary: voc ns) auto

lemma map_of_sort_key:
  assumes "distinct (map fst xs)"
  shows "map_of (sort_key f xs) = map_of xs"
proof -
  have d: "distinct (map fst (sort_key f xs))"
    using assms by (metis distinct_map distinct_sort set_sort inj_on_def)
  show ?thesis
    by (rule map_of_inject_set[THEN iffD2]) (use assms d in simp_all)
qed

lemma new_vectorizer_lookup:
  assumes "distinct (map fst voc)"
    and "new_vectorizer k (Some (DictVectorizer voc ns)) = Some v"
  shows "vec_lookup v name = map_option (\<lambda>i. i + int k) (map_of voc name)"
    and "feature_names v = ns @ map fst (sort_key snd voc)"
proof -
  have d: "distinct (map fst (sort_key snd voc))"
    using assms(1) by (metis distinct_map distinct_sort set_sort inj_on_def)
  obtain voc' ns' where s: "shift_loop (int k) (sort_key snd voc) (voc, ns) = (voc', ns')"
    by (cases "shift_loop (int k) (sort_key snd voc) (voc, ns)")
  have v: "v = DictVectorizer voc' ns'"
    using assms(2) s by simp
  show "vec_lookup v name = map_option (\<lambda>i. i + int k) (map_of voc name)"
    using shift_loop_lookup[OF d, of "int k" voc ns name] s
    by (simp add: v map_of_sort_key[OF assms(1)] split: option.splits)
  show "feature_names v = ns @ map fst (sort_key snd voc)"
    using shift_loop_names[of "int k" "sort_key snd voc" voc ns] s by (simp add: v)
qed

lemma add_dict_vocabulary:
  assumes "FeatureSet_add a b = Inr r" and "features a = Some m"
    and "feat_vectorizer a = Some (DictVectorizer voc ns)" and "distinct (map fst voc)"
  shows "\<exists>v. feat_vectorizer r = Some v
            \<and> (\<forall>name. vec_lookup v name = map_option (\<lambda>i. i + int (ncols m)) (map_of voc name))"
proof -
  have "feat_vectorizer r = new_vectorizer (ncols m) (Some (DictVectorizer voc ns))"
    using assms(1,2,3)
    by (auto simp: FeatureSet_add_def merge_features_def init_without_features Let_def
        tuple_index_def shape_def split: if_splits sum.splits prod.splits)
  moreover have "\<exists>v. new_vectorizer (ncols m) (Some (DictVectorizer voc ns)) = Some v"
    by (cases "shift_loop (int (ncols m)) (sort_key snd voc) (voc, ns)") simp
  ultimately show ?thesis
    using new_vectorizer_lookup(1)[OF assms(4)] by auto
qed

subsection \<open>What \<^verbatim>\<open>filter\<close> does when the counts agree\<close>

text \<open>
  When the set has as many examples as columns, the mask fits, and \<^verbatim>\<open>filter\<close> with an
  \<^verbatim>\<open>ids\<close> list removes the examples whose id is in the list, or keeps only those when
  \<^verbatim>\<open>inverse\<close> is set; ids, classes and rows go through the same mask, in their order.
\<close>

lemma select_map: "select (map P xs) xs = filter P xs"
  by (induction xs) (simp_all add: select_def)

lemma and_ones: "length ys = n \<Longrightarrow> map2 (\<and>) (replicate n True) ys = ys"
  by (induction ys arbitrary: n) auto

lemma row_mask_ids_square:
  assumes "ids self = Some is" and "features self = Some m" and "length is = ncols m"
  shows "row_mask self (Some l) None inverse_arg = Inr (map (\<lambda>i. py_in i l = inverse_arg) is)"
  using assms
  by (simp add: row_mask_def initial_mask_def FeatureSet_len_def shape_def tuple_index_def
      np_ones_def np_logical_and_def np_logical_not_def np_in1d_def as_array_def broadcast2_def
      and_ones)

lemma filter_ids_square:
  assumes "ids self = Some is" and "classes self = Some cs" and "features self = Some m"
    and "length is = ncols m" and "length cs = ncols m" and "length (rows m) = ncols m"
  shows "FeatureSet_filter self (Some l) None None inverse_arg =
     Inr (self\<lparr>ids := Some (filter (\<lambda>i. py_in i l = inverse_arg) is),
               classes := Some (select (map (\<lambda>i. py_in i l = inverse_arg) is) cs),
               features := Some (m\<lparr>rows := select (map (\<lambda>i. py_in i l = inverse_arg) is) (rows m)\<rparr>)\<rparr>)"
  using assms
  by (simp add: FeatureSet_filter_def row_mask_ids_square[OF assms(1,3,4)] bool_index_def
      bool_index_rows_def filter_columns_def select_map)

subsection \<open>The claims\<close>

text \<open>
  C1. Merging two Dictionary-vectorized sets with disjoint names and equal ids should give
  a vectorizer that maps the names of the left set to their old indices and the names of
  the right set to their indices shifted by the column count of the left set. The method
  does succeed on \<open>example_P\<close> (features a, b) and \<open>example_Q\<close> (feature c) and the new
  matrix has the three columns; but the loop of lines 104 to 109 runs over the vocabulary
  of the copy of the left vectorizer, so a and b move from 0 and 1 to 2 and 3, their names
  are appended a second time, and c is not in the vocabulary at all.
\<close>

theorem add_shifts_own_vocabulary:
  "FeatureSet_add example_P example_Q =
     Inr \<lparr>ids = None, classes = None,
          features = Some \<lparr>ncols = 3, rows = [[1, 2, 5], [3, 4, 6]]\<rparr>,
          feat_vectorizer =
            Some (DictVectorizer [(''a'', 2), (''b'', 3)] [''a'', ''b'', ''a'', ''b''])\<rparr>"
  by (simp add: example_P_def example_Q_def np_defs fs_defs)

text \<open>
  C2. The example of the specification: \<open>example_A + example_B\<close> should have the ids
  1, 2, 3, the classes x, x, y and the features f1 and f2. The method raises nothing, but
  the new set has no ids and no classes (\<^verbatim>\<open>new_set.ids\<close> is never assigned, and
  \<^verbatim>\<open>new_set.classes\<close> only when \<^verbatim>\<open>self.classes\<close> is \<^verbatim>\<open>None\<close>), and its vectorizer
  knows f1 at index 1 and does not know f2.
\<close>

theorem add_spec_example:
  "FeatureSet_add example_A example_B =
     Inr \<lparr>ids = None, classes = None,
          features = Some \<lparr>ncols = 2, rows = [[10, 7], [20, 8], [30, 9]]\<rparr>,
          feat_vectorizer = Some (DictVectorizer [(''f1'', 1)] [''f1'', ''f1''])\<rparr>"
  by (simp add: example_A_def example_B_def np_defs fs_defs)

text \<open>
  C3. \<^verbatim>\<open>filtered_iter\<close> should yield the rows that \<^verbatim>\<open>filter\<close> with the same arguments
  keeps, and full rows when no feature names are given. With no argument at all
  \<^verbatim>\<open>filtered_iter\<close> yields every example of \<open>example_S\<close> with an empty row (line 214),
  while \<^verbatim>\<open>filter\<close> keeps every example with its full row.
\<close>

theorem filtered_iter_differs_from_filter:
  "filtered_iter example_S None None None False =
     Inr [(IntV 1, StrV ''x'', []), (IntV 2, StrV ''x'', []), (IntV 3, StrV ''y'', [])]
   \<and> (case FeatureSet_filter example_S None None None False of
         Inl e \<Rightarrow> Inl e
       | Inr s \<Rightarrow> FeatureSet_iter s) =
     Inr [(IntV 1, StrV ''x'', [10, 11, 12]), (IntV 2, StrV ''x'', [20, 21, 22]),
          (IntV 3, StrV ''y'', [30, 31, 32])]"
  by (simp add: example_S_def np_defs fs_defs eval_nat_numeral)

text \<open>
  C4. \<open>A - B\<close> should be a copy of A without the feature columns that B names, with all
  ids, classes and rows of A. On \<open>example_P\<close> and \<open>example_Q\<close> the method raises a
  TypeError: it hands the feature matrix of B to \<^verbatim>\<open>filter\<close> where the feature names are
  expected, and a matrix row cannot be looked up in the vectorizer. By then \<^verbatim>\<open>inverse=True\<close>
  has turned the all-true row mask into an all-false one and every example of the copy is
  gone.
\<close>

theorem sub_raises:
  "FeatureSet_sub example_P example_Q = Inl TypeError"
  by (simp add: example_P_def example_Q_def np_defs fs_defs eval_nat_numeral)

text \<open>
  C5. \<^verbatim>\<open>filter(ids=[x])\<close> on a set that has an example with id x should remove the rows
  with that id and no other. \<open>example_T\<close> has three examples and two features: the mask
  starts with two entries (\<^verbatim>\<open>len(self)\<close> counts columns) and cannot be combined with
  the three entries of \<^verbatim>\<open>np.in1d(self.ids, ids)\<close>, so the call raises a ValueError and
  removes nothing.
\<close>

theorem filter_ids_shape_error:
  "FeatureSet_filter example_T (Some [IntV 2]) None None False = Inl ValueError"
  by (simp add: example_T_def np_defs fs_defs eval_nat_numeral)

text \<open>
  C6. \<^verbatim>\<open>filter\<close> with feature names and \<^verbatim>\<open>inverse=True\<close> should drop the named columns
  and keep all others. On \<open>example_S\<close> (features f0, f1, f2) with the name f0, and with
  all three ids so that every row stays, the method keeps the column of f2 only:
  \<^verbatim>\<open>~columns\<close> is the index array \<open>[-1]\<close>, the last column, and not the complement of
  column 0.
\<close>

theorem filter_inverse_keeps_mirrored_column:
  "FeatureSet_filter example_S (Some [IntV 1, IntV 2, IntV 3]) None (Some [PyStr ''f0'']) True =
     Inr (example_S\<lparr>features := Some \<lparr>ncols = 1, rows = [[12], [22], [32]]\<rparr>\<rparr>)"
  by (simp add: example_S_def np_defs fs_defs eval_nat_numeral)

text \<open>
  C7. With a feature matrix, construction should either fail with ShapeMismatch or give
  a set whose ids and classes are as long as the matrix has rows, missing ids and classes
  being filled in at that length. Two ids, two classes and a matrix of two rows and three
  columns agree in their row counts, and the constructor raises an IndexError; it does
  the same when ids and classes are left out.
\<close>

theorem init_raises_IndexError:
  "FeatureSet_init (Some [IntV 1, IntV 2]) (Some [StrV ''x'', StrV ''y''])
       (Some \<lparr>ncols = 3, rows = [[1, 2, 3], [4, 5, 6]]\<rparr>) None = Inl IndexError
   \<and> FeatureSet_init None None (Some \<lparr>ncols = 3, rows = [[1, 2, 3], [4, 5, 6]]\<rparr>) None =
       Inl IndexError"
  by (simp add: np_defs fs_defs)

text \<open>
  C8. A set constructed without a feature matrix should be usable as the left operand of
  a merge. \<^verbatim>\<open>FeatureSet()\<close> has no ids, the comparison of line 115 compares \<^verbatim>\<open>None\<close>
  with the ids of the right operand, and the merge with \<open>example_A\<close> fails with
  MisalignedIds.
\<close>

theorem add_placeholder_misaligned:
  "(case FeatureSet_init None None None None of
      Inl e \<Rightarrow> Inl e
    | Inr placeholder \<Rightarrow> FeatureSet_add placeholder example_A) = Inl MisalignedIds"
  by (simp add: example_A_def np_defs fs_defs)

text \<open>
  C9. Whenever \<^verbatim>\<open>__add__\<close> fails, with whatever exception, both operands are as they
  were before the call: the \<^verbatim>\<open>FeatureSet\<close> objects with their ids, classes and features,
  and the vectorizer objects they refer to. The operands may be the same object or share
  a vectorizer object.
\<close>

theorem failed_add_leaves_operands:
  assumes "allocated h self" and "allocated h other"
    and "add_heap self other h = (Inl e, h')"
  shows "read_fs h' self = read_fs h self \<and> read_fs h' other = read_fs h other"
proof -
  have "read_fs h' r = read_fs h r" if "allocated h r" for r
  proof -
    have "r < next_ref h \<and> (\<exists>ob. fs_objects h r = Some ob)"
      using that by (auto simp: allocated_def split: option.splits)
    then obtain ob where ob: "fs_objects h r = Some ob" and r: "r < next_ref h"
      by blast
    have v: "get_vec h' (o_feat_vectorizer ob) = get_vec h (o_feat_vectorizer ob)"
      using that ob add_heap_frame[OF assms(3)]
      by (auto simp: allocated_def get_vec_def split: option.splits)
    show ?thesis
      using add_heap_frame[OF assms(3) r] ob v by (simp add: read_fs_def)
  qed
  then show ?thesis using assms(1,2) by simp
qed

theorem failed_add_leaves_operands_witness:
  "allocated example_heap 0 \<and> allocated example_heap 1
   \<and> fst (add_heap 0 1 example_heap) = Inl MisalignedIds
   \<and> vec_objects (snd (add_heap 0 1 example_heap)) 5 =
       Some (DictVectorizer [(''a'', 1)] [''a'', ''a''])
   \<and> read_fs (snd (add_heap 0 1 example_heap)) 0 = read_fs example_heap 0
   \<and> read_fs (snd (add_heap 0 1 example_heap)) 1 = read_fs example_heap 1"
proof -
  have a0: "allocated example_heap 0" and a1: "allocated example_heap 1"
    by (simp_all add: example_heap_def allocated_def)
  have ev: "fst (add_heap 0 1 example_heap) = Inl MisalignedIds"
    by (simp add: example_heap_def heap_defs check_duplicates_def hstack_def tuple_index_def
        shape_def np_all_eq_def broadcast2_def as_array_def val_eq_def Let_def)
  have copy: "vec_objects (snd (add_heap 0 1 example_heap)) 5 =
       Some (DictVectorizer [(''a'', 1)] [''a'', ''a''])"
    by (simp add: example_heap_def heap_defs check_duplicates_def hstack_def tuple_index_def
        shape_def np_all_eq_def broadcast2_def as_array_def val_eq_def Let_def)
  have run: "add_heap 0 1 example_heap = (Inl MisalignedIds, snd (add_heap 0 1 example_heap))"
    using ev by (cases "add_heap 0 1 example_heap") simp
  show ?thesis
    using a0 a1 ev copy failed_add_leaves_operands [OF a0 a1 run] by simp
qed

text \<open>
  C10. When the feature matrix is present, \<^verbatim>\<open>len(self)\<close> is the number of columns of the
  matrix, \<^verbatim>\<open>features.shape[1]\<close>, whatever the number of examples; so the mask that
  \<^verbatim>\<open>filter\<close> builds from \<^verbatim>\<open>np.ones(len(self))\<close> has one entry for every column, and with
  no \<^verbatim>\<open>ids\<close> and no \<^verbatim>\<open>classes\<close> argument that is the mask applied to the rows.
\<close>

theorem len_is_column_count:
  assumes "features self = Some m"
  shows "FeatureSet_len self = Inr (ncols m)
       \<and> initial_mask self = Inr (replicate (ncols m) True)
       \<and> (\<exists>msk. row_mask self None None inverse_arg = Inr msk \<and> length msk = ncols m)"
  using assms
  by (simp add: FeatureSet_len_def initial_mask_def row_mask_def shape_def tuple_index_def
      np_ones_def np_logical_not_def)

theorem len_is_column_count_witness:
  "FeatureSet_len \<lparr>ids = Some [IntV 1, IntV 2], classes = Some [StrV ''x'', StrV ''y''],
       features = Some \<lparr>ncols = 3, rows = [[1, 0, 2], [0, 5, 0]]\<rparr>,
       feat_vectorizer = None\<rparr> = Inr 3
   \<and> length (rows \<lparr>ncols = 3, rows = [[1, 0, 2], [0, 5, 0 :: int]]\<rparr>) = 2"
  using len_is_column_count [of "\<lparr>ids = Some [IntV 1, IntV 2],
       classes = Some [StrV ''x'', StrV ''y''],
       features = Some \<lparr>ncols = 3, rows = [[1, 0, 2], [0, 5, 0]]\<rparr>,
       feat_vectorizer = None\<rparr>" "\<lparr>ncols = 3, rows = [[1, 0, 2], [0, 5, 0]]\<rparr>"]
  by simp

end
